theory Spec2Isabelle
  imports Main "HOL-Library.Word"
begin

section \<open>The mini-VDD handlers of minivdd.c\<close>

text \<open>
  A shallow embedding of \<^verbatim>\<open>src/minivdd.c\<close>: the seventeen \<^verbatim>\<open>VDDPROC\<close>
  handlers and the two wrappers around the VMM trapping services. Each handler is a
  function from the machine state before the call to the machine state after it.
  The function numbers quoted below are those of the handlers' header comments
  (GET_CHIP_ID is function 42, GET_TOTAL_VRAM_SIZE function 36, and so on).
\<close>

subsection \<open>The client register structure (vmm.h, \<^verbatim>\<open>struct tagCRS_32\<close>)\<close>

type_synonym DWORD = "32 word"
type_synonym WORD = "16 word"
type_synonym uint32 = "32 word"

record CRS_32 =
  Client_EDI :: DWORD
  Client_ESI :: DWORD
  Client_EBP :: DWORD
  dwReserved_1 :: DWORD
  Client_EBX :: DWORD
  Client_EDX :: DWORD
  Client_ECX :: DWORD
  Client_EAX :: DWORD
  Client_Error :: DWORD
  Client_EIP :: DWORD
  Client_CS :: WORD
  wReserved_2 :: WORD
  Client_EFlags :: DWORD
  Client_ESP :: DWORD
  Client_SS :: WORD
  wReserved_3 :: WORD
  Client_ES :: WORD
  WReserved_4 :: WORD
  Client_DS :: WORD
  wReserved_5 :: WORD
  Client_FS :: WORD
  wReserved_6 :: WORD
  Client_GS :: WORD
  wReserved_7 :: WORD
  Client_Alt_EIP :: DWORD
  Client_Alt_CS :: WORD
  wReserved_8 :: WORD
  Client_Alt_EFlags :: DWORD
  Client_Alt_ESP :: DWORD
  Client_Alt_SS :: WORD
  wReserved_9 :: WORD
  Client_Alt_ES :: WORD
  WReserved_10 :: WORD
  Client_Alt_DS :: WORD
  wReserved_11 :: WORD
  Client_Alt_FS :: WORD
  wReserved_12 :: WORD
  Client_Alt_GS :: WORD
  wReserved_13 :: WORD

subsection \<open>The virtual graphics adapter\<close>

text \<open>
  Modelled from the spec: \<^verbatim>\<open>svga_all.h\<close>, which declares the type of the global
  \<^verbatim>\<open>gSVGA\<close>, is not under src/. The spec speaks of a vendor and a device
  identifier, composed with the vendor in the upper half of a 32-bit value: 16 bits
  each. minivdd.c casts both fields to \<^verbatim>\<open>uint32\<close> before it uses them.
\<close>

record SVGADevice =
  vendorId :: WORD
  deviceId :: WORD

text \<open>
  Modelled from the spec: the adapter's register numbers are declared in
  \<^verbatim>\<open>svga_all.h\<close>, not under src/. Only the register that minivdd.c reads is named;
  every other register number is \<open>SVGA_REG_other n\<close>.
\<close>

datatype svga_reg = SVGA_REG_VRAM_SIZE | SVGA_REG_other nat

subsection \<open>The machine state a handler runs in\<close>

text \<open>
  \<open>state\<close> is the structure the handler's \<^verbatim>\<open>state\<close> pointer refers to.
  \<open>svga_init_success\<close> and \<open>gSVGA\<close> are the two globals of that name and
  \<open>svga_registers\<close> is the adapter's register file. \<open>Enable_sPort\<close> and
  \<open>Disable_sPort\<close> are the \<^verbatim>\<open>static DWORD sPort\<close> of the two trapping wrappers.
  \<open>carry\<close> is the carry signal returned to the caller and \<open>trapped\<close> holds, for
  each I/O port, whether the host traps it; both are explained at the operations
  that write them.
\<close>

record vdd_state =
  state :: CRS_32
  carry :: bool
  svga_init_success :: bool
  gSVGA :: SVGADevice
  svga_registers :: "svga_reg \<Rightarrow> uint32"
  trapped :: "DWORD \<Rightarrow> bool"
  Enable_sPort :: DWORD
  Disable_sPort :: DWORD

text \<open>
  Modelled from the spec: the macro \<^verbatim>\<open>VDD_CY\<close> is defined in \<^verbatim>\<open>minivdd32.h\<close>,
  which is not under src/. The spec has one boolean "handled" signal with carry-flag
  semantics, returned next to the snapshot; the header comments of minivdd.c say
  "CY returned means that mini-VDD handled the call". \<open>carry = True\<close> is CY. The
  value of \<open>carry\<close> on entry is what the caller left there.
\<close>

definition VDD_CY :: "vdd_state \<Rightarrow> vdd_state" where
  "VDD_CY s = s\<lparr>carry := True\<rparr>"

text \<open>
  Modelled from the spec: the macro \<^verbatim>\<open>VDD_NC\<close> of \<^verbatim>\<open>minivdd32.h\<close>, not under
  src/; it is the "unhandled" value of the same signal, \<open>carry = False\<close>.
\<close>

definition VDD_NC :: "vdd_state \<Rightarrow> vdd_state" where
  "VDD_NC s = s\<lparr>carry := False\<rparr>"

text \<open>
  Modelled from the spec: \<^verbatim>\<open>SVGA_ReadReg\<close> is declared in \<^verbatim>\<open>svga_all.h\<close>, not
  under src/. The spec's adapter interface is \<^verbatim>\<open>readRegister(id) -> 32-bit value\<close>.
\<close>

definition SVGA_ReadReg :: "vdd_state \<Rightarrow> svga_reg \<Rightarrow> uint32" where
  "SVGA_ReadReg s r = svga_registers s r"

text \<open>
  Modelled from the spec: the VMM service \<^verbatim>\<open>Enable_Global_Trapping\<close>, reached by
  \<^verbatim>\<open>VMMCall\<close> with the port in EDX, belongs to the host monitor. The spec gives each
  port one boolean trap-ownership flag, "host-trapped", which
  \<^verbatim>\<open>enableGlobalTrap(port)\<close> sets, idempotent per port.
\<close>

definition VMM_Enable_Global_Trapping :: "DWORD \<Rightarrow> vdd_state \<Rightarrow> vdd_state" where
  "VMM_Enable_Global_Trapping edx s = s\<lparr>trapped := (trapped s)(edx := True)\<rparr>"

text \<open>
  Modelled from the spec: the VMM service \<^verbatim>\<open>Disable_Global_Trapping\<close> of the host
  monitor; \<^verbatim>\<open>disableGlobalTrap(port)\<close> clears the port's flag, idempotent per port.
\<close>

definition VMM_Disable_Global_Trapping :: "DWORD \<Rightarrow> vdd_state \<Rightarrow> vdd_state" where
  "VMM_Disable_Global_Trapping edx s = s\<lparr>trapped := (trapped s)(edx := False)\<rparr>"

subsection \<open>The trapping wrappers\<close>

text \<open>
  \<^verbatim>\<open>sPort = port; push edx; mov edx, [sPort]; VMMCall(...); pop edx\<close>: the port is
  stored in the static variable, loaded into EDX and the service called. The
  processor's own EDX is restored; the client registers are not touched.
\<close>

definition Enable_Global_Trapping :: "DWORD \<Rightarrow> vdd_state \<Rightarrow> vdd_state" where
  "Enable_Global_Trapping port s =
     (let s1 = s\<lparr>Enable_sPort := port\<rparr>
      in VMM_Enable_Global_Trapping (Enable_sPort s1) s1)"

definition Disable_Global_Trapping :: "DWORD \<Rightarrow> vdd_state \<Rightarrow> vdd_state" where
  "Disable_Global_Trapping port s =
     (let s1 = s\<lparr>Disable_sPort := port\<rparr>
      in VMM_Disable_Global_Trapping (Disable_sPort s1) s1)"

subsection \<open>The handlers\<close>

text \<open>
  The bodies of \<open>get_chip_id\<close> and \<open>get_total_vram_size\<close> stand between
  \<^verbatim>\<open>#ifdef SVGA\<close> and \<^verbatim>\<open>#endif\<close>; the first argument \<open>SVGA\<close> says whether the
  build defines that macro.
\<close>

definition register_display_driver :: "vdd_state \<Rightarrow> vdd_state" where
  "register_display_driver s = VDD_NC s"

text \<open>
  C's logical or \<^verbatim>\<open>a || b\<close> on 32-bit operands: the right operand is looked at
  only when the left one is zero, and the value is 1 or 0.
\<close>

definition logical_or :: "uint32 \<Rightarrow> uint32 \<Rightarrow> uint32" where
  "logical_or a b = (if a = 0 then (if b = 0 then 0 else 1) else 1)"

text \<open>
  \<^verbatim>\<open>uint32 chip_id = (((uint32)gSVGA.vendorId) << 16) || ((uint32)gSVGA.deviceId);\<close>
\<close>

definition get_chip_id :: "bool \<Rightarrow> vdd_state \<Rightarrow> vdd_state" where
  "get_chip_id SVGA s =
     (if SVGA then
        (if svga_init_success s then
           (let chip_id :: uint32 =
                  logical_or (push_bit 16 (ucast (vendorId (gSVGA s)) :: uint32))
                             (ucast (deviceId (gSVGA s)) :: uint32)
            in s\<lparr>state := (state s)\<lparr>Client_EAX := chip_id\<rparr>\<rparr>)
         else s\<lparr>state := (state s)\<lparr>Client_EAX := 0\<rparr>\<rparr>)
      else s)"

definition check_screen_switch_ok :: "vdd_state \<Rightarrow> vdd_state" where
  "check_screen_switch_ok s = s"

definition get_bank_size :: "vdd_state \<Rightarrow> vdd_state" where
  "get_bank_size s = s"

definition get_current_bank_read :: "vdd_state \<Rightarrow> vdd_state" where
  "get_current_bank_read s = s"

definition get_current_bank_write :: "vdd_state \<Rightarrow> vdd_state" where
  "get_current_bank_write s = s"

definition get_total_vram_size :: "bool \<Rightarrow> vdd_state \<Rightarrow> vdd_state" where
  "get_total_vram_size SVGA s =
     (if SVGA then
        (if svga_init_success s then
           (let vram_size = SVGA_ReadReg s SVGA_REG_VRAM_SIZE
            in VDD_CY (s\<lparr>state := (state s)\<lparr>Client_ECX := vram_size\<rparr>\<rparr>))
         else VDD_NC (s\<lparr>state := (state s)\<lparr>Client_ECX := 0\<rparr>\<rparr>))
      else s)"

definition pre_hires_save_restore :: "vdd_state \<Rightarrow> vdd_state" where
  "pre_hires_save_restore s = s"

definition post_hires_save_restore :: "vdd_state \<Rightarrow> vdd_state" where
  "post_hires_save_restore s = s"

definition set_bank :: "vdd_state \<Rightarrow> vdd_state" where
  "set_bank s = s"

definition set_hires_mode :: "vdd_state \<Rightarrow> vdd_state" where
  "set_hires_mode s = s"

definition vesa_call_post_processing :: "vdd_state \<Rightarrow> vdd_state" where
  "vesa_call_post_processing s = s"

definition vesa_support :: "vdd_state \<Rightarrow> vdd_state" where
  "vesa_support s = s"

definition pre_hires_to_vga :: "vdd_state \<Rightarrow> vdd_state" where
  "pre_hires_to_vga s = Disable_Global_Trapping 0x1CF (Disable_Global_Trapping 0x1CE s)"

definition post_hires_to_vga :: "vdd_state \<Rightarrow> vdd_state" where
  "post_hires_to_vga s = Enable_Global_Trapping 0x1CF (Enable_Global_Trapping 0x1CE s)"

definition enable_traps :: "vdd_state \<Rightarrow> vdd_state" where
  "enable_traps s = Enable_Global_Trapping 0x1CF (Enable_Global_Trapping 0x1CE s)"

definition display_driver_disabling :: "vdd_state \<Rightarrow> vdd_state" where
  "display_driver_disabling s =
     Disable_Global_Trapping 0x1CF (Disable_Global_Trapping 0x1CE s)"

subsection \<open>The handler table\<close>

text \<open>
  Each \<^verbatim>\<open>VDDPROC(ID, name)\<close> header pairs a function identifier with its handler.
  \<open>dispatch\<close> is that pairing; the caller hands it the state with the carry signal
  as the caller has set it.
\<close>

datatype vdd_function =
    REGISTER_DISPLAY_DRIVER
  | GET_CHIP_ID
  | CHECK_SCREEN_SWITCH_OK
  | GET_BANK_SIZE
  | GET_CURRENT_BANK_READ
  | GET_CURRENT_BANK_WRITE
  | GET_TOTAL_VRAM_SIZE
  | PRE_HIRES_SAVE_RESTORE
  | POST_HIRES_SAVE_RESTORE
  | SET_BANK
  | SET_HIRES_MODE
  | VESA_CALL_POST_PROCESSING
  | VESA_SUPPORT
  | PRE_HIRES_TO_VGA
  | POST_HIRES_TO_VGA
  | ENABLE_TRAPS
  | DISPLAY_DRIVER_DISABLING

fun dispatch :: "bool \<Rightarrow> vdd_function \<Rightarrow> vdd_state \<Rightarrow> vdd_state" where
  "dispatch SVGA REGISTER_DISPLAY_DRIVER s = register_display_driver s"
| "dispatch SVGA GET_CHIP_ID s = get_chip_id SVGA s"
| "dispatch SVGA CHECK_SCREEN_SWITCH_OK s = check_screen_switch_ok s"
| "dispatch SVGA GET_BANK_SIZE s = get_bank_size s"
| "dispatch SVGA GET_CURRENT_BANK_READ s = get_current_bank_read s"
| "dispatch SVGA GET_CURRENT_BANK_WRITE s = get_current_bank_write s"
| "dispatch SVGA GET_TOTAL_VRAM_SIZE s = get_total_vram_size SVGA s"
| "dispatch SVGA PRE_HIRES_SAVE_RESTORE s = pre_hires_save_restore s"
| "dispatch SVGA POST_HIRES_SAVE_RESTORE s = post_hires_save_restore s"
| "dispatch SVGA SET_BANK s = set_bank s"
| "dispatch SVGA SET_HIRES_MODE s = set_hires_mode s"
| "dispatch SVGA VESA_CALL_POST_PROCESSING s = vesa_call_post_processing s"
| "dispatch SVGA VESA_SUPPORT s = vesa_support s"
| "dispatch SVGA PRE_HIRES_TO_VGA s = pre_hires_to_vga s"
| "dispatch SVGA POST_HIRES_TO_VGA s = post_hires_to_vga s"
| "dispatch SVGA ENABLE_TRAPS s = enable_traps s"
| "dispatch SVGA DISPLAY_DRIVER_DISABLING s = display_driver_disabling s"

subsection \<open>Sample inputs\<close>

text \<open>
  A register snapshot with every field zero, and the state of the spec's scenario:
  adapter initialised, vendor id 0x15AD, device id 0x0405, 16,777,216 bytes of VRAM,
  both bank-select ports trapped by the host, carry clear.
\<close>

definition zero_CRS_32 :: CRS_32 where
  "zero_CRS_32 =
     \<lparr>Client_EDI = 0, Client_ESI = 0, Client_EBP = 0, dwReserved_1 = 0,
      Client_EBX = 0, Client_EDX = 0, Client_ECX = 0, Client_EAX = 0,
      Client_Error = 0, Client_EIP = 0, Client_CS = 0, wReserved_2 = 0,
      Client_EFlags = 0, Client_ESP = 0, Client_SS = 0, wReserved_3 = 0,
      Client_ES = 0, WReserved_4 = 0, Client_DS = 0, wReserved_5 = 0,
      Client_FS = 0, wReserved_6 = 0, Client_GS = 0, wReserved_7 = 0,
      Client_Alt_EIP = 0, Client_Alt_CS = 0, wReserved_8 = 0,
      Client_Alt_EFlags = 0, Client_Alt_ESP = 0, Client_Alt_SS = 0,
      wReserved_9 = 0, Client_Alt_ES = 0, WReserved_10 = 0, Client_Alt_DS = 0,
      wReserved_11 = 0, Client_Alt_FS = 0, wReserved_12 = 0, Client_Alt_GS = 0,
      wReserved_13 = 0\<rparr>"

definition scenario_state :: vdd_state where
  "scenario_state =
     \<lparr>state = zero_CRS_32, carry = False, svga_init_success = True,
      gSVGA = \<lparr>vendorId = 0x15AD, deviceId = 0x0405\<rparr>,
      svga_registers = (\<lambda>r. if r = SVGA_REG_VRAM_SIZE then 16777216 else 0),
      trapped = (\<lambda>port. True), Enable_sPort = 0, Disable_sPort = 0\<rparr>"

subsection \<open>Calling SET_BANK\<close>

text \<open>
  The header comment of SET_BANK: "EAX: Contains the read bank to set. EDX: Contains
  the write bank to set." \<open>call_set_bank r w\<close> is the handler invoked on a snapshot
  that carries these two arguments.
\<close>

definition call_set_bank :: "DWORD \<Rightarrow> DWORD \<Rightarrow> vdd_state \<Rightarrow> vdd_state" where
  "call_set_bank r w s =
     set_bank (s\<lparr>state := (state s)\<lparr>Client_EAX := r, Client_EDX := w\<rparr>\<rparr>)"

section \<open>Properties\<close>

subsection \<open>Unfolding the handlers\<close>

lemmas trapping_defs = Enable_Global_Trapping_def Disable_Global_Trapping_def
  VMM_Enable_Global_Trapping_def VMM_Disable_Global_Trapping_def

lemmas empty_handler_defs = check_screen_switch_ok_def get_bank_size_def
  get_current_bank_read_def get_current_bank_write_def pre_hires_save_restore_def
  post_hires_save_restore_def set_bank_def set_hires_mode_def
  vesa_call_post_processing_def vesa_support_def

lemma trapped_Enable_Global_Trapping:
  "trapped (Enable_Global_Trapping p s) = (trapped s)(p := True)"
  by (simp add: trapping_defs)

lemma trapped_Disable_Global_Trapping:
  "trapped (Disable_Global_Trapping p s) = (trapped s)(p := False)"
  by (simp add: trapping_defs)

lemma state_Enable_Global_Trapping: "state (Enable_Global_Trapping p s) = state s"
  by (simp add: trapping_defs)

lemma state_Disable_Global_Trapping: "state (Disable_Global_Trapping p s) = state s"
  by (simp add: trapping_defs)

lemma get_chip_id_changes_EAX_only:
  "get_chip_id SVGA s =
     s\<lparr>state := (state s)\<lparr>Client_EAX := Client_EAX (state (get_chip_id SVGA s))\<rparr>\<rparr>"
  by (simp add: get_chip_id_def Let_def)

lemma get_total_vram_size_changes_ECX_carry_only:
  "get_total_vram_size SVGA s =
     s\<lparr>state := (state s)\<lparr>Client_ECX := Client_ECX (state (get_total_vram_size SVGA s))\<rparr>,
       carry := carry (get_total_vram_size SVGA s)\<rparr>"
  by (simp add: get_total_vram_size_def Let_def VDD_CY_def VDD_NC_def)

subsection \<open>Chip identifier\<close>

text \<open>
  C1. The claim: with the adapter initialised, GET_CHIP_ID (function 42) writes into
  the snapshot's EAX the vendor id in the upper 16 bits and the device id in the lower
  16 bits, so 0x15AD and 0x0405 give 0x15AD0405. The handler combines the two halves
  with \<^verbatim>\<open>||\<close> where \<^verbatim>\<open>|\<close> was meant: at vendor id 0x15AD and device id 0x0405
  it writes 1.
\<close>

theorem get_chip_id_scenario_writes_one:
  "Client_EAX (state (get_chip_id True scenario_state)) = 1
   \<and> Client_EAX (state (get_chip_id True scenario_state)) \<noteq> 0x15AD0405"
  by (simp add: get_chip_id_def scenario_state_def logical_or_def)

subsection \<open>Total VRAM size\<close>

text \<open>
  C2. GET_TOTAL_VRAM_SIZE (function 36), in a build with SVGA (the build in which the
  adapter exists): when the adapter is not initialised the handler writes zero into the
  snapshot's ECX and reports "unhandled" (carry clear); when it is initialised the
  handler writes the value of the adapter's VRAM size register into ECX and reports
  "handled" (carry set).
\<close>

theorem get_total_vram_size_reports:
  "SVGA \<Longrightarrow>
     Client_ECX (state (get_total_vram_size SVGA s)) =
       (if svga_init_success s then svga_registers s SVGA_REG_VRAM_SIZE else 0)
     \<and> carry (get_total_vram_size SVGA s) = svga_init_success s"
  by (simp add: get_total_vram_size_def VDD_CY_def VDD_NC_def SVGA_ReadReg_def)

text \<open>
  The theorem at the scenario's adapter with 16,777,216 bytes of VRAM, and at the same
  adapter before initialisation.
\<close>

theorem get_total_vram_size_reports_witness:
  "Client_ECX (state (get_total_vram_size True scenario_state)) = 16777216
   \<and> carry (get_total_vram_size True scenario_state) = True
   \<and> Client_ECX (state (get_total_vram_size True
         (scenario_state\<lparr>svga_init_success := False\<rparr>))) = 0
   \<and> carry (get_total_vram_size True (scenario_state\<lparr>svga_init_success := False\<rparr>)) = False"
  using get_total_vram_size_reports [of True scenario_state]
    get_total_vram_size_reports [of True "scenario_state\<lparr>svga_init_success := False\<rparr>"]
  by (simp add: scenario_state_def)

subsection \<open>Trapping of the bank-select ports\<close>

text \<open>
  C3, as claimed: from every initial trap-ownership state, PRE_HIRES_TO_VGA followed by
  POST_HIRES_TO_VGA leaves each port's flag as it was. The post handler enables both
  ports whatever they were before, so the pair does not restore a flag that was clear:
  after DISPLAY_DRIVER_DISABLING port 0x1CE is not trapped, and after the pair it is.
\<close>

theorem pre_post_hires_to_vga_counterexample:
  "trapped (post_hires_to_vga (pre_hires_to_vga (display_driver_disabling scenario_state)))
       0x1CE
     \<noteq> trapped (display_driver_disabling scenario_state) 0x1CE"
  by (simp add: post_hires_to_vga_def pre_hires_to_vga_def display_driver_disabling_def
      trapped_Enable_Global_Trapping trapped_Disable_Global_Trapping scenario_state_def)

text \<open>
  C3, amended: from every initial state in which both bank-select ports are trapped by
  the host, PRE_HIRES_TO_VGA followed by POST_HIRES_TO_VGA leaves each port's flag equal
  to its value before the pair ran.
\<close>

theorem pre_post_hires_to_vga_round_trip:
  assumes "trapped s 0x1CE" and "trapped s 0x1CF"
  shows "trapped (post_hires_to_vga (pre_hires_to_vga s)) 0x1CE = trapped s 0x1CE
         \<and> trapped (post_hires_to_vga (pre_hires_to_vga s)) 0x1CF = trapped s 0x1CF"
  using assms
  by (simp add: post_hires_to_vga_def pre_hires_to_vga_def
      trapped_Enable_Global_Trapping trapped_Disable_Global_Trapping)

theorem pre_post_hires_to_vga_round_trip_witness:
  "trapped scenario_state 0x1CE \<and> trapped scenario_state 0x1CF
   \<and> trapped (post_hires_to_vga (pre_hires_to_vga scenario_state)) 0x1CE
   \<and> trapped (post_hires_to_vga (pre_hires_to_vga scenario_state)) 0x1CF"
proof -
  have a: "trapped scenario_state 0x1CE" and b: "trapped scenario_state 0x1CF"
    by (simp_all add: scenario_state_def)
  from pre_post_hires_to_vga_round_trip [OF a b] a b show ?thesis by simp
qed

text \<open>
  C4. From any state in which the trap-ownership flags of ports 0x1CE and 0x1CF are
  equal, every handler of the table leaves them equal: no call changes one of the two
  ports without the other.
\<close>

theorem dispatch_keeps_bank_ports_paired:
  "trapped s 0x1CE = trapped s 0x1CF \<Longrightarrow>
     trapped (dispatch SVGA f s) 0x1CE = trapped (dispatch SVGA f s) 0x1CF"
  by (cases f)
    (simp_all add: empty_handler_defs register_display_driver_def VDD_NC_def VDD_CY_def
      get_chip_id_def get_total_vram_size_def pre_hires_to_vga_def post_hires_to_vga_def
      enable_traps_def display_driver_disabling_def Let_def
      trapped_Enable_Global_Trapping trapped_Disable_Global_Trapping)

theorem dispatch_keeps_bank_ports_paired_witness:
  "trapped scenario_state 0x1CE = trapped scenario_state 0x1CF
   \<and> trapped (dispatch True PRE_HIRES_TO_VGA scenario_state) 0x1CE = False
   \<and> trapped (dispatch True PRE_HIRES_TO_VGA scenario_state) 0x1CF = False"
proof -
  have a: "trapped scenario_state 0x1CE = trapped scenario_state 0x1CF"
    by (simp add: scenario_state_def)
  have b: "trapped (dispatch True PRE_HIRES_TO_VGA scenario_state) 0x1CE = False"
    by (simp add: pre_hires_to_vga_def trapped_Disable_Global_Trapping)
  from dispatch_keeps_bank_ports_paired [OF a, of True PRE_HIRES_TO_VGA] a b
  show ?thesis by simp
qed

text \<open>
  C5, as claimed: PRE_HIRES_SAVE_RESTORE (function 39) disables host trapping on both
  bank-select ports and POST_HIRES_SAVE_RESTORE (function 40) enables it again. Both
  handlers have empty bodies: after the pre handler the ports of the scenario are still
  trapped, and after the post handler ports that were not trapped are still not
  trapped.
\<close>

theorem hires_save_restore_counterexample:
  "trapped (pre_hires_save_restore scenario_state) 0x1CE
   \<and> trapped (pre_hires_save_restore scenario_state) 0x1CF
   \<and> \<not> trapped (post_hires_save_restore (display_driver_disabling scenario_state)) 0x1CE
   \<and> \<not> trapped (post_hires_save_restore (display_driver_disabling scenario_state)) 0x1CF"
  by (simp add: empty_handler_defs display_driver_disabling_def
      trapped_Disable_Global_Trapping scenario_state_def)

text \<open>
  C5, amended: PRE_HIRES_SAVE_RESTORE and POST_HIRES_SAVE_RESTORE leave the trapping of
  every port, and the rest of the state, unchanged. The handlers that bracket a mode
  change are PRE_HIRES_TO_VGA, after which neither bank-select port is trapped, and
  POST_HIRES_TO_VGA, after which both are.
\<close>

theorem hires_save_restore_leave_trapping:
  "pre_hires_save_restore s = s \<and> post_hires_save_restore s = s
   \<and> \<not> trapped (pre_hires_to_vga s) 0x1CE \<and> \<not> trapped (pre_hires_to_vga s) 0x1CF
   \<and> trapped (post_hires_to_vga s) 0x1CE \<and> trapped (post_hires_to_vga s) 0x1CF"
  by (simp add: empty_handler_defs pre_hires_to_vga_def post_hires_to_vga_def
      trapped_Disable_Global_Trapping trapped_Enable_Global_Trapping)

subsection \<open>Banks\<close>

text \<open>
  C6, as claimed: after SET_BANK (function 34) with read bank \<open>r\<close> and write bank
  \<open>w\<close>, GET_CURRENT_BANK_WRITE (function 32) yields \<open>w\<close> in EDX and
  GET_CURRENT_BANK_READ (function 33) yields \<open>r\<close>. The three handlers have empty
  bodies; with \<open>r = 1\<close> and \<open>w = 2\<close> the read handler leaves 2 in EDX.
\<close>

theorem set_bank_get_current_bank_read_counterexample:
  "Client_EDX (state (get_current_bank_read (call_set_bank 1 2 scenario_state))) = 2
   \<and> Client_EDX (state (get_current_bank_read (call_set_bank 1 2 scenario_state))) \<noteq> 1"
  by (simp add: empty_handler_defs call_set_bank_def)

text \<open>
  C6, amended: SET_BANK, GET_CURRENT_BANK_WRITE and GET_CURRENT_BANK_READ change
  nothing. After SET_BANK with read bank \<open>r\<close> and write bank \<open>w\<close>, either get
  handler run on the resulting snapshot leaves in EDX the value it found there, which
  is \<open>w\<close>, and leaves the carry signal as the caller set it.
\<close>

theorem set_bank_then_get_current_bank:
  "set_bank s = s \<and> get_current_bank_write s = s \<and> get_current_bank_read s = s
   \<and> Client_EDX (state (get_current_bank_write (call_set_bank r w s))) = w
   \<and> Client_EDX (state (get_current_bank_read (call_set_bank r w s))) = w
   \<and> carry (get_current_bank_write (call_set_bank r w s)) = carry s
   \<and> carry (get_current_bank_read (call_set_bank r w s)) = carry s"
  by (simp add: empty_handler_defs call_set_bank_def)

subsection \<open>Mode handlers\<close>

text \<open>
  C7, as claimed: CHECK_SCREEN_SWITCH_OK (function 43) reports "safe" (no carry) for a
  standard VESA or VGA mode and "unsafe" (carry) for a proprietary mode. The handler
  has an empty body, so its answer does not depend on the mode: on one and the same
  snapshot (EAX = -1, "running in a known VESA mode", mode number 0x101 in ECX) it
  returns carry when entered with carry and no carry when entered without.
\<close>

theorem check_screen_switch_ok_counterexample:
  "carry (check_screen_switch_ok
       (scenario_state\<lparr>state := zero_CRS_32\<lparr>Client_EAX := 0xFFFFFFFF, Client_ECX := 0x101\<rparr>,
                       carry := True\<rparr>)) = True
   \<and> carry (check_screen_switch_ok
       (scenario_state\<lparr>state := zero_CRS_32\<lparr>Client_EAX := 0xFFFFFFFF, Client_ECX := 0x101\<rparr>,
                       carry := False\<rparr>)) = False"
  by (simp add: empty_handler_defs)

text \<open>
  C7, amended: for every input mode CHECK_SCREEN_SWITCH_OK changes nothing; the carry
  signal after the call is the one the caller set before it.
\<close>

theorem check_screen_switch_ok_leaves_carry:
  "check_screen_switch_ok s = s \<and> carry (check_screen_switch_ok s) = carry s"
  by (simp add: empty_handler_defs)

text \<open>
  C8, as claimed: SET_HIRES_MODE (function 38) reports "unhandled" for a recognised
  VESA mode number whatever the prior state, and "handled" for a proprietary one. The
  handler has an empty body: for the mode number 0x101 in EAX it returns carry when
  entered with carry and no carry when entered without, so whichever way 0x101 is
  classified one of the two calls contradicts the claim.
\<close>

theorem set_hires_mode_counterexample:
  "carry (set_hires_mode
       (scenario_state\<lparr>state := zero_CRS_32\<lparr>Client_EAX := 0x101\<rparr>, carry := True\<rparr>)) = True
   \<and> carry (set_hires_mode
       (scenario_state\<lparr>state := zero_CRS_32\<lparr>Client_EAX := 0x101\<rparr>, carry := False\<rparr>)) = False"
  by (simp add: empty_handler_defs)

text \<open>
  C8, amended: for every target mode number SET_HIRES_MODE changes nothing, neither
  the snapshot nor any other state; the carry signal after the call is the one the
  caller set before it.
\<close>

theorem set_hires_mode_leaves_carry:
  "set_hires_mode s = s \<and> carry (set_hires_mode s) = carry s"
  by (simp add: empty_handler_defs)

subsection \<open>Frame conditions\<close>

text \<open>
  C9. GET_CHIP_ID changes nothing but the snapshot's EAX; GET_TOTAL_VRAM_SIZE changes
  nothing but the snapshot's ECX and the carry signal; every other handler of the table
  leaves the whole snapshot unchanged. This holds for every snapshot, every adapter
  state and both builds.
\<close>

theorem handlers_frame:
  "get_chip_id SVGA s =
     s\<lparr>state := (state s)\<lparr>Client_EAX := Client_EAX (state (get_chip_id SVGA s))\<rparr>\<rparr>
   \<and> get_total_vram_size SVGA s =
     s\<lparr>state := (state s)\<lparr>Client_ECX := Client_ECX (state (get_total_vram_size SVGA s))\<rparr>,
       carry := carry (get_total_vram_size SVGA s)\<rparr>
   \<and> state (dispatch SVGA f s) =
     (if f = GET_CHIP_ID
      then (state s)\<lparr>Client_EAX := Client_EAX (state (get_chip_id SVGA s))\<rparr>
      else if f = GET_TOTAL_VRAM_SIZE
      then (state s)\<lparr>Client_ECX := Client_ECX (state (get_total_vram_size SVGA s))\<rparr>
      else state s)"
proof -
  have regs: "state (dispatch SVGA f s) =
     (if f = GET_CHIP_ID
      then (state s)\<lparr>Client_EAX := Client_EAX (state (get_chip_id SVGA s))\<rparr>
      else if f = GET_TOTAL_VRAM_SIZE
      then (state s)\<lparr>Client_ECX := Client_ECX (state (get_total_vram_size SVGA s))\<rparr>
      else state s)"
  proof (cases f)
    case GET_CHIP_ID
    then show ?thesis by (simp add: get_chip_id_def Let_def)
  next
    case GET_TOTAL_VRAM_SIZE
    then show ?thesis by (simp add: get_total_vram_size_def Let_def VDD_CY_def VDD_NC_def)
  qed (simp_all add: empty_handler_defs register_display_driver_def VDD_NC_def
        pre_hires_to_vga_def post_hires_to_vga_def enable_traps_def
        display_driver_disabling_def state_Enable_Global_Trapping
        state_Disable_Global_Trapping)
  from get_chip_id_changes_EAX_only [of SVGA s]
    get_total_vram_size_changes_ECX_carry_only [of SVGA s] regs
  show ?thesis by blast
qed

subsection \<open>The carry signal of GET_CHIP_ID\<close>

text \<open>
  C10. GET_CHIP_ID never sets or clears the carry signal: on every path the carry
  after the call is the carry before it. With SVGA and the adapter not initialised it
  writes zero into EAX, where GET_TOTAL_VRAM_SIZE in the same situation clears the
  carry.
\<close>

theorem get_chip_id_keeps_carry:
  "carry (get_chip_id SVGA s) = carry s
   \<and> (SVGA \<and> \<not> svga_init_success s \<longrightarrow>
        Client_EAX (state (get_chip_id SVGA s)) = 0
        \<and> carry (get_total_vram_size SVGA s) = False)"
  by (simp add: get_chip_id_def get_total_vram_size_def Let_def VDD_NC_def)

theorem get_chip_id_keeps_carry_witness:
  "carry (get_chip_id True (scenario_state\<lparr>svga_init_success := False, carry := True\<rparr>)) = True
   \<and> Client_EAX (state (get_chip_id True
         (scenario_state\<lparr>svga_init_success := False, carry := True\<rparr>))) = 0
   \<and> carry (get_total_vram_size True
         (scenario_state\<lparr>svga_init_success := False, carry := True\<rparr>)) = False"
  using get_chip_id_keeps_carry
    [of True "scenario_state\<lparr>svga_init_success := False, carry := True\<rparr>"]
  by simp

end
